theory Spec2Isabelle
  imports Main "HOL-Library.Word"
begin

unbundle bit_operations_syntax

section \<open>JavaScript values\<close>

text \<open>
  A JavaScript string is a sequence of UTF-16 code units; \<open>length\<close> on the model is the
  \<^verbatim>\<open>.length\<close> of the source and \<open>take 50\<close> is \<^verbatim>\<open>.substring(0, 50)\<close>.
  The literals of the source are ASCII (or ASCII followed by one emoji, written as its
  surrogate pair), so \<open>js\<close> turns an ASCII literal into code units.
\<close>

type_synonym jsstring = "16 word list"

definition js :: "string \<Rightarrow> jsstring" where
  "js s = map (\<lambda>c. of_nat (of_char c)) s"

text \<open>
  The fields of a parsed JSON request body. \<open>JUndefined\<close> is a field that is absent from
  the body. A number is represented by the string that JavaScript gives for it
  (\<^verbatim>\<open>String(n)\<close>), which determines the number; the falsy numbers a JSON body can
  hold are \<open>0\<close> and \<open>-0\<close>, and the string of both is \<open>0\<close>. The list of an object holds
  its own properties, each key once.
\<close>

datatype jsval =
    JUndefined
  | JNull
  | JBool bool
  | JNum jsstring
  | JStr jsstring
  | JArr "jsval list"
  | JObj "(jsstring \<times> jsval) list"

text \<open>JavaScript truthiness, as used by \<^verbatim>\<open>!x\<close>, \<^verbatim>\<open>x || y\<close> and \<^verbatim>\<open>if (x)\<close>.\<close>

fun truthy :: "jsval \<Rightarrow> bool" where
  "truthy JUndefined = False"
| "truthy JNull = False"
| "truthy (JBool b) = b"
| "truthy (JNum n) = (n \<noteq> js ''0'')"
| "truthy (JStr s) = (s \<noteq> [])"
| "truthy (JArr xs) = True"
| "truthy (JObj kvs) = True"

text \<open>\<^verbatim>\<open>typeof x === 'string'\<close>\<close>

fun is_string :: "jsval \<Rightarrow> bool" where
  "is_string (JStr s) = True"
| "is_string v = False"

text \<open>The code units of a value that is a string.\<close>

fun string_of :: "jsval \<Rightarrow> jsstring" where
  "string_of (JStr s) = s"
| "string_of v = []"

section \<open>Fingerprint: the cache key of getAIResponse\<close>

text \<open>
  \<^verbatim>\<open>Buffer.from(message)\<close> encodes the string as UTF-8: a surrogate pair becomes one
  four-byte sequence, a lone surrogate becomes U+FFFD.
\<close>

definition utf8_cp :: "nat \<Rightarrow> 8 word list" where
  "utf8_cp cp =
     (if cp < 0x80 then [of_nat cp]
      else if cp < 0x800 then [of_nat (0xC0 + cp div 64), of_nat (0x80 + cp mod 64)]
      else if cp < 0x10000 then
        [of_nat (0xE0 + cp div 4096), of_nat (0x80 + (cp div 64) mod 64), of_nat (0x80 + cp mod 64)]
      else
        [of_nat (0xF0 + cp div 262144), of_nat (0x80 + (cp div 4096) mod 64),
         of_nat (0x80 + (cp div 64) mod 64), of_nat (0x80 + cp mod 64)])"

definition is_high_surrogate :: "16 word \<Rightarrow> bool" where
  "is_high_surrogate c = (0xD800 \<le> unat c \<and> unat c < 0xDC00)"

definition is_low_surrogate :: "16 word \<Rightarrow> bool" where
  "is_low_surrogate c = (0xDC00 \<le> unat c \<and> unat c < 0xE000)"

definition bmp_cp :: "16 word \<Rightarrow> nat" where
  "bmp_cp c = (if is_high_surrogate c \<or> is_low_surrogate c then 0xFFFD else unat c)"

fun utf8 :: "jsstring \<Rightarrow> 8 word list" where
  "utf8 [] = []"
| "utf8 [c] = utf8_cp (bmp_cp c)"
| "utf8 (c # d # cs) =
     (if is_high_surrogate c \<and> is_low_surrogate d
      then utf8_cp (0x10000 + (unat c - 0xD800) * 1024 + (unat d - 0xDC00)) @ utf8 cs
      else utf8_cp (bmp_cp c) @ utf8 (d # cs))"

text \<open>\<^verbatim>\<open>.toString('base64')\<close>: the standard alphabet, padded with \<open>=\<close>.\<close>

definition b64_alphabet :: string where
  "b64_alphabet = ''ABCDEFGHIJKLMNOPQRSTUVWXYZabcdefghijklmnopqrstuvwxyz0123456789+/''"

definition b64_digit :: "nat \<Rightarrow> char" where
  "b64_digit i = b64_alphabet ! (i mod 64)"

fun base64 :: "8 word list \<Rightarrow> string" where
  "base64 [] = []"
| "base64 [a] =
     [b64_digit (unat a div 4), b64_digit ((unat a mod 4) * 16), CHR ''='', CHR ''='']"
| "base64 [a, b] =
     [b64_digit (unat a div 4), b64_digit ((unat a mod 4) * 16 + unat b div 16),
      b64_digit ((unat b mod 16) * 4), CHR ''='']"
| "base64 (a # b # c # rest) =
     [b64_digit (unat a div 4), b64_digit ((unat a mod 4) * 16 + unat b div 16),
      b64_digit ((unat b mod 16) * 4 + unat c div 64), b64_digit (unat c mod 64)]
     @ base64 rest"

text \<open>
  \<^verbatim>\<open>`ai_${platform}_${Buffer.from(message).toString('base64').slice(0, 20)}`\<close>
\<close>

definition fingerprint :: "jsstring \<Rightarrow> jsstring \<Rightarrow> jsstring" where
  "fingerprint platform message =
     js ''ai_'' @ platform @ js ''_'' @ js (take 20 (base64 (utf8 message)))"


section \<open>String conversion of values\<close>

text \<open>
  A template literal \<^verbatim>\<open>`${v}`\<close> converts \<open>v\<close> to a string, which can throw: the
  result is \<open>Inr\<close> the string or \<open>Inl\<close> the message of the TypeError. An array is joined
  with commas, from the first element on, with \<^verbatim>\<open>null\<close> and \<^verbatim>\<open>undefined\<close>
  elements shown as the empty string. An object parsed from JSON inherits
  \<^verbatim>\<open>Object.prototype.toString\<close> unless it has a property \<open>toString\<close> of its own,
  which is not a function and leaves the object without a way to become a primitive.
\<close>

fun js_to_string :: "jsval \<Rightarrow> jsstring + jsstring"
  and join_elements :: "jsval list \<Rightarrow> jsstring + jsstring" where
  "js_to_string JUndefined = Inr (js ''undefined'')"
| "js_to_string JNull = Inr (js ''null'')"
| "js_to_string (JBool b) = Inr (if b then js ''true'' else js ''false'')"
| "js_to_string (JNum n) = Inr n"
| "js_to_string (JStr s) = Inr s"
| "js_to_string (JArr xs) = join_elements xs"
| "js_to_string (JObj kvs) =
     (if js ''toString'' \<in> set (map fst kvs)
      then Inl (js ''Cannot convert object to primitive value'')
      else Inr (js ''[object Object]''))"
| "join_elements [] = Inr []"
| "join_elements (x # xs) =
     (case (if x = JUndefined \<or> x = JNull then Inr [] else js_to_string x) of
        Inl thrown \<Rightarrow> Inl thrown
      | Inr element \<Rightarrow>
          (case join_elements xs of
             Inl thrown \<Rightarrow> Inl thrown
           | Inr others \<Rightarrow> Inr (if xs = [] then element else element @ js '','' @ others)))"

section \<open>Configuration\<close>

text \<open>
  The fields of \<^verbatim>\<open>config\<close> that the modelled code reads. \<open>AI_MODEL\<close> and
  \<open>AI_MAX_TOKENS\<close> come from the environment with a default; the others are literals of
  the configuration file. The temperature (a floating-point number) is left out of the
  completion request.
\<close>

record config =
  AI_MODEL :: jsstring
  AI_MAX_TOKENS :: int
  CACHE_TTL :: nat
  ENABLE_CACHING :: bool
  ERROR_GENERIC :: jsstring
  ERROR_AI_TIMEOUT :: jsstring

definition default_config :: config where
  "default_config =
     \<lparr> AI_MODEL = js ''gpt-4o-mini'',
       AI_MAX_TOKENS = 1000,
       CACHE_TTL = 300,
       ENABLE_CACHING = True,
       ERROR_GENERIC = js ''Sorry, something went wrong. Please try again! '' @ [0xD83D, 0xDE4F],
       ERROR_AI_TIMEOUT = js ''AI response timeout. Please try with a shorter message.'' \<rparr>"

text \<open>
  \<^verbatim>\<open>config.AI.SYSTEM_PROMPTS[platform] || config.AI.SYSTEM_PROMPTS.default\<close>, for the
  keys the object defines itself (the callers pass \<^verbatim>\<open>'whatsapp'\<close> and \<^verbatim>\<open>'web'\<close>).
\<close>

definition system_prompt :: "jsstring \<Rightarrow> jsstring" where
  "system_prompt platform =
     (if platform = js ''whatsapp'' then
        js ''You are a friendly, helpful WhatsApp AI assistant. Keep responses conversational and under 500 characters for WhatsApp compatibility.''
      else if platform = js ''web'' then
        js ''You are a smart, professional AI assistant. Provide detailed and helpful responses.''
      else js ''You are a helpful AI assistant.'')"

section \<open>The response cache\<close>

text \<open>
  Modelled from the spec: the cache is an instance of the node-cache package, whose code
  is not part of the repository sources. The model follows the specification's
  ResponseCache and CacheEntry: an entry holds a value and \<open>expiresAt = insertTime + TTL\<close>,
  and is visible to a lookup only while \<open>now < expiresAt\<close>; \<open>set\<close> inserts or overwrites
  and resets the expiry; \<open>flushAll\<close> removes all entries. The clock counts milliseconds
  and the TTL is given in seconds, as \<^verbatim>\<open>stdTTL\<close> is.
\<close>

type_synonym cache = "jsstring \<rightharpoonup> (jsstring \<times> nat)"

text \<open>
  Modelled from the spec: \<open>get(key)\<close> returns absent if the key was never set or the
  entry's TTL has elapsed.
\<close>

definition cache_get :: "cache \<Rightarrow> nat \<Rightarrow> jsstring \<Rightarrow> jsstring option" where
  "cache_get c now k =
     (case c k of
        None \<Rightarrow> None
      | Some (v, expiresAt) \<Rightarrow> if now < expiresAt then Some v else None)"

text \<open>
  Modelled from the spec: \<open>set(key, value)\<close> inserts or overwrites, and resets the expiry
  to \<open>now + TTL\<close>.
\<close>

definition cache_set :: "nat \<Rightarrow> cache \<Rightarrow> nat \<Rightarrow> jsstring \<Rightarrow> jsstring \<Rightarrow> cache" where
  "cache_set ttl c now k v = c(k \<mapsto> (v, now + ttl * 1000))"

text \<open>Modelled from the spec: \<open>flushAll()\<close> removes all entries.\<close>

definition cache_flushAll :: "cache \<Rightarrow> cache" where
  "cache_flushAll c = Map.empty"

section \<open>Process state and environment\<close>

datatype bot_status = Initializing | WaitingForQr | Authenticated | Ready | Disconnected

datatype log_level = Info | Warn | Error

text \<open>The body of \<^verbatim>\<open>axios.post\<close> to the completion API.\<close>

record completion_request =
  req_model :: jsstring
  req_system :: jsstring
  req_user :: jsstring
  req_max_tokens :: int

text \<open>
  The global variables of the process (\<^verbatim>\<open>cache\<close>, \<^verbatim>\<open>whatsappClient\<close>, \<^verbatim>\<open>botStatus\<close>,
  \<^verbatim>\<open>connectedUsers\<close>), the clock, and a record of every call made to a collaborator:
  the completion requests posted, the replies attempted with \<^verbatim>\<open>msg.reply\<close>, the
  messages handed to \<^verbatim>\<open>whatsappClient.sendMessage\<close>, and the arguments of every
  logger call. \<open>whatsappClient\<close> is \<open>False\<close> while the variable is \<^verbatim>\<open>null\<close>.
\<close>

record world =
  cache :: cache
  whatsappClient :: bool
  botStatus :: bot_status
  connectedUsers :: "jsstring set"
  clock :: nat
  completions :: "completion_request list"
  replies :: "(jsstring \<times> jsstring) list"
  sent :: "(jsval \<times> jsval) list"
  logs :: "(log_level \<times> jsval list) list"

text \<open>
  What the completion API answers: a reply (\<^verbatim>\<open>response.data.choices[0].message.content\<close>),
  an error with \<^verbatim>\<open>code === 'ECONNABORTED'\<close>, or any other error (a transport error, an
  error status, a response without the expected fields). Each error carries its
  \<^verbatim>\<open>message\<close>.
\<close>

datatype api_result = Replied jsstring | Aborted jsstring | Failed jsstring

text \<open>
  The collaborators are functions of the number of earlier calls, so that the same
  request may be answered differently each time. \<open>api\<close> also gives the time the call
  took, in milliseconds. \<open>reply_error\<close> and \<open>send_error\<close> give the message of the error
  a delivery is rejected with, or \<open>None\<close> when it succeeds. \<open>log_meta_error\<close> gives the
  message of the error the logger throws when it is handed a request body as metadata,
  or \<open>None\<close> when it logs it.
\<close>

record env =
  api :: "nat \<Rightarrow> completion_request \<Rightarrow> nat \<times> api_result"
  reply_error :: "nat \<Rightarrow> jsstring \<Rightarrow> jsstring \<Rightarrow> jsstring option"
  send_error :: "nat \<Rightarrow> jsval \<Rightarrow> jsval \<Rightarrow> jsstring option"
  log_meta_error :: "jsval \<Rightarrow> jsstring option"

definition initial_world :: world where
  "initial_world =
     \<lparr> cache = Map.empty, whatsappClient = False, botStatus = Initializing,
       connectedUsers = {}, clock = 0, completions = [], replies = [], sent = [],
       logs = [] \<rparr>"

definition tick :: "nat \<Rightarrow> world \<Rightarrow> world" where
  "tick d w = w\<lparr>clock := clock w + d\<rparr>"

definition logger :: "log_level \<Rightarrow> jsval list \<Rightarrow> world \<Rightarrow> world" where
  "logger lvl args w = w\<lparr>logs := logs w @ [(lvl, args)]\<rparr>"

section \<open>getAIResponse\<close>

definition make_request :: "config \<Rightarrow> jsstring \<Rightarrow> jsstring \<Rightarrow> completion_request" where
  "make_request cfg message platform =
     \<lparr> req_model = AI_MODEL cfg, req_system = system_prompt platform, req_user = message,
       req_max_tokens = AI_MAX_TOKENS cfg \<rparr>"

text \<open>
  The lookup at the head of the function: \<^verbatim>\<open>cached\<close> is used only when caching is
  enabled and the value found is truthy, that is, a non-empty string.
\<close>

definition cached_reply :: "config \<Rightarrow> world \<Rightarrow> jsstring \<Rightarrow> jsstring option" where
  "cached_reply cfg w cacheKey =
     (if ENABLE_CACHING cfg then
        (case cache_get (cache w) (clock w) cacheKey of
           None \<Rightarrow> None
         | Some cached \<Rightarrow> if cached \<noteq> [] then Some cached else None)
      else None)"

text \<open>
  The result is \<open>Inr\<close> the reply, or \<open>Inl\<close> the message of the \<^verbatim>\<open>Error\<close> thrown. The
  completion call is appended to \<open>completions\<close> and the clock advances by the time it
  took, so the reply is stored at the time the call returned.
\<close>

definition getAIResponse ::
  "config \<Rightarrow> env \<Rightarrow> world \<Rightarrow> jsstring \<Rightarrow> jsstring \<Rightarrow> world \<times> (jsstring + jsstring)" where
  "getAIResponse cfg env w message platform =
     (let cacheKey = fingerprint platform message in
      case cached_reply cfg w cacheKey of
        Some cached \<Rightarrow> (logger Info [JStr (js ''Cache hit for AI response'')] w, Inr cached)
      | None \<Rightarrow>
          (let request = make_request cfg message platform;
               (took, result) = api env (length (completions w)) request;
               w1 = w\<lparr>completions := completions w @ [request], clock := clock w + took\<rparr>
           in case result of
                Replied aiReply \<Rightarrow>
                  (if ENABLE_CACHING cfg
                   then w1\<lparr>cache := cache_set (CACHE_TTL cfg) (cache w1) (clock w1) cacheKey aiReply\<rparr>
                   else w1,
                   Inr aiReply)
              | Aborted detail \<Rightarrow>
                  (logger Error [JStr (js ''AI API Error:''), JStr detail] w1,
                   Inl (ERROR_AI_TIMEOUT cfg))
              | Failed detail \<Rightarrow>
                  (logger Error [JStr (js ''AI API Error:''), JStr detail] w1,
                   Inl (ERROR_GENERIC cfg))))"

section \<open>The chat client\<close>

definition setupWhatsAppClient :: "world \<Rightarrow> world" where
  "setupWhatsAppClient w = w\<lparr>whatsappClient := True\<rparr>"

definition on_qr :: "world \<Rightarrow> world" where
  "on_qr w =
     logger Info [JStr (js ''QR Code generated, waiting for scan'')] (w\<lparr>botStatus := WaitingForQr\<rparr>)"

definition on_ready :: "world \<Rightarrow> world" where
  "on_ready w =
     logger Info [JStr ([0xD83E, 0xDD16] @ js '' Premium AI Bot is now online!'')]
       (w\<lparr>botStatus := Ready\<rparr>)"

definition on_authenticated :: "world \<Rightarrow> world" where
  "on_authenticated w =
     logger Info [JStr (js ''WhatsApp authentication successful'')] (w\<lparr>botStatus := Authenticated\<rparr>)"

definition on_disconnected :: "jsstring \<Rightarrow> world \<Rightarrow> world" where
  "on_disconnected reason w =
     logger Warn [JStr (js ''WhatsApp disconnected: '' @ reason)] (w\<lparr>botStatus := Disconnected\<rparr>)"

text \<open>The fields of an incoming message that the handler reads.\<close>

record message =
  msg_from :: jsstring
  msg_fromMe :: bool
  msg_body :: jsstring

text \<open>\<^verbatim>\<open>await msg.reply(text)\<close>: the attempt is recorded; the result is the error, if any.\<close>

definition msg_reply :: "env \<Rightarrow> world \<Rightarrow> message \<Rightarrow> jsstring \<Rightarrow> world \<times> jsstring option" where
  "msg_reply env w msg text =
     (w\<lparr>replies := replies w @ [(msg_from msg, text)]\<rparr>,
      reply_error env (length (replies w)) (msg_from msg) text)"

text \<open>The \<^verbatim>\<open>catch\<close> block of the message handler.\<close>

definition on_message_failed :: "config \<Rightarrow> env \<Rightarrow> world \<Rightarrow> message \<Rightarrow> jsstring \<Rightarrow> world" where
  "on_message_failed cfg env w msg detail =
     (let w1 = logger Error
                 [JStr (js ''Error processing message from '' @ msg_from msg @ js '':''), JStr detail] w;
          (w2, failed) = msg_reply env w1 msg (ERROR_GENERIC cfg)
      in case failed of
           None \<Rightarrow> w2
         | Some replyError \<Rightarrow>
             logger Error [JStr (js ''Failed to send error message:''), JStr replyError] w2)"

definition on_message :: "config \<Rightarrow> env \<Rightarrow> world \<Rightarrow> message \<Rightarrow> world" where
  "on_message cfg env w msg =
     (if msg_from msg = js ''status@broadcast'' \<or> msg_fromMe msg then w
      else
        (let w1 = w\<lparr>connectedUsers := insert (msg_from msg) (connectedUsers w)\<rparr>;
             w2 = logger Info
                    [JStr ([0xD83D, 0xDCE9] @ js '' Message from '' @ msg_from msg @ js '': ''
                           @ take 50 (msg_body msg) @ js ''...'')] w1;
             (w3, result) = getAIResponse cfg env w2 (msg_body msg) (js ''whatsapp'')
         in case result of
              Inl thrown \<Rightarrow> on_message_failed cfg env w3 msg thrown
            | Inr aiReply \<Rightarrow>
                (case msg_reply env w3 msg aiReply of
                   (w4, Some thrown) \<Rightarrow> on_message_failed cfg env w4 msg thrown
                 | (w4, None) \<Rightarrow>
                     logger Info
                       [JStr ([0xD83E, 0xDD16] @ js '' AI replied to '' @ msg_from msg @ js '': ''
                              @ take 50 aiReply @ js ''...'')] w4)))"

section \<open>The HTTP handlers\<close>

text \<open>
  The JSON bodies the handlers send: \<^verbatim>\<open>{error}\<close>, the chat reply
  \<^verbatim>\<open>{success: true, reply, timestamp, sessionId}\<close>, \<^verbatim>\<open>{success: false, error}\<close> and
  \<^verbatim>\<open>{success: true, message}\<close>. The timestamp is left out. A response sent with
  \<^verbatim>\<open>res.json\<close> alone has status 200.
\<close>

datatype body =
    ErrorBody jsstring
  | ChatReply jsstring jsval
  | Failure jsstring
  | Success jsstring

record response =
  res_status :: nat
  res_body :: body

text \<open>
  POST /api/chat. The arguments \<open>message\<close> and \<open>sessionId\<close> are the two fields
  taken from \<^verbatim>\<open>req.body\<close>, which is the parsed JSON object that the
  \<^verbatim>\<open>express.json()\<close> middleware leaves there.
\<close>

definition api_chat ::
  "config \<Rightarrow> env \<Rightarrow> world \<Rightarrow> jsval \<Rightarrow> jsval \<Rightarrow> world \<times> response" where
  "api_chat cfg env w message sessionId =
     (if \<not> truthy message \<or> \<not> is_string message then
        (w, \<lparr>res_status = 400,
             res_body = ErrorBody (js ''Message is required and must be a string'')\<rparr>)
      else if length (string_of message) > 2000 then
        (w, \<lparr>res_status = 400,
             res_body = ErrorBody (js ''Message too long. Maximum 2000 characters allowed.'')\<rparr>)
      else
        (let w1 = logger Info
                    [JStr ([0xD83C, 0xDF10] @ js '' Web chat message: ''
                           @ take 50 (string_of message) @ js ''...'')] w;
             (w2, result) = getAIResponse cfg env w1 (string_of message) (js ''web'')
         in case result of
              Inr aiReply \<Rightarrow>
                (logger Info
                   [JStr ([0xD83C, 0xDF10] @ js '' Web AI replied: '' @ take 50 aiReply
                          @ js ''...'')] w2,
                 \<lparr>res_status = 200,
                  res_body = ChatReply aiReply
                    (if truthy sessionId then sessionId else JStr (js ''anonymous''))\<rparr>)
            | Inl thrown \<Rightarrow>
                (logger Error [JStr (js ''Chat API error:''), JStr thrown] w2,
                 \<lparr>res_status = 500,
                  res_body = Failure (if thrown \<noteq> [] then thrown else ERROR_GENERIC cfg)\<rparr>)))"

text \<open>
  POST /api/webhook: the body is handed to the logger as metadata and acknowledged. When
  the logger throws, the \<^verbatim>\<open>catch\<close> block logs the message of the error and
  answers with it.
\<close>

definition api_webhook :: "env \<Rightarrow> world \<Rightarrow> jsval \<Rightarrow> world \<times> response" where
  "api_webhook env w payload =
     (case log_meta_error env payload of
        None \<Rightarrow>
          (logger Info [JStr (js ''Webhook received:''), payload] w,
           \<lparr>res_status = 200, res_body = Success (js ''Webhook processed successfully'')\<rparr>)
      | Some thrown \<Rightarrow>
          (logger Error [JStr (js ''Webhook error:''), JStr thrown] w,
           \<lparr>res_status = 500, res_body = Failure thrown\<rparr>))"

text \<open>
  \<^verbatim>\<open>number.includes('@') ? number : `${number}@c.us`\<close>. A string and an array have
  an \<^verbatim>\<open>includes\<close> method; on any other truthy value the call throws a TypeError.
  The result is \<open>Inl\<close> the message of the error thrown, or \<open>Inr\<close> the destination.
\<close>

fun format_number :: "jsval \<Rightarrow> jsstring + jsval" where
  "format_number (JStr n) = Inr (if 0x40 \<in> set n then JStr n else JStr (n @ js ''@c.us''))"
| "format_number (JArr xs) =
     (if JStr (js ''@'') \<in> set xs then Inr (JArr xs)
      else (case js_to_string (JArr xs) of
              Inl thrown \<Rightarrow> Inl thrown
            | Inr text \<Rightarrow> Inr (JStr (text @ js ''@c.us''))))"
| "format_number v = Inl (js ''number.includes is not a function'')"

text \<open>
  POST /api/send. After the response has been sent, the logging line converts the
  destination to a string and calls \<^verbatim>\<open>message.substring\<close>, which throws when the
  message is not a string; the \<^verbatim>\<open>catch\<close> block logs the error, and its own
  attempt to respond fails because the response is already out, so the client keeps the
  response it got. (The rejection this ends in is reported by the process-level handler,
  which is not part of the model.)
\<close>

definition api_send ::
  "config \<Rightarrow> env \<Rightarrow> world \<Rightarrow> jsval \<Rightarrow> jsval \<Rightarrow> world \<times> response" where
  "api_send cfg env w number message =
     (if \<not> whatsappClient w \<or> botStatus w \<noteq> Ready then
        (w, \<lparr>res_status = 503, res_body = ErrorBody (js ''WhatsApp bot not ready'')\<rparr>)
      else if \<not> truthy number \<or> \<not> truthy message then
        (w, \<lparr>res_status = 400, res_body = ErrorBody (js ''Number and message are required'')\<rparr>)
      else
        (case format_number number of
           Inl thrown \<Rightarrow>
             (logger Error [JStr (js ''Send message error:''), JStr thrown] w,
              \<lparr>res_status = 500, res_body = Failure thrown\<rparr>)
         | Inr formattedNumber \<Rightarrow>
             (let w1 = w\<lparr>sent := sent w @ [(formattedNumber, message)]\<rparr>
              in case send_error env (length (sent w)) formattedNumber message of
                   Some thrown \<Rightarrow>
                     (logger Error [JStr (js ''Send message error:''), JStr thrown] w1,
                      \<lparr>res_status = 500, res_body = Failure thrown\<rparr>)
                 | None \<Rightarrow>
                     ((case js_to_string formattedNumber of
                         Inl thrown' \<Rightarrow>
                           logger Error [JStr (js ''Send message error:''), JStr thrown'] w1
                       | Inr destination \<Rightarrow>
                           (case message of
                              JStr text \<Rightarrow>
                                logger Info
                                  [JStr ([0xD83D, 0xDCE4] @ js '' Message sent to ''
                                         @ destination @ js '': '' @ take 50 text
                                         @ js ''...'')] w1
                            | _ \<Rightarrow>
                                logger Error
                                  [JStr (js ''Send message error:''),
                                   JStr (js ''message.substring is not a function'')] w1)),
                      \<lparr>res_status = 200, res_body = Success (js ''Message sent successfully'')\<rparr>))))"

text \<open>POST /api/cache/clear\<close>

definition api_cache_clear :: "world \<Rightarrow> world \<times> response" where
  "api_cache_clear w =
     (logger Info [JStr (js ''Cache cleared manually'')] (w\<lparr>cache := cache_flushAll (cache w)\<rparr>),
      \<lparr>res_status = 200, res_body = Success (js ''Cache cleared successfully'')\<rparr>)"

section \<open>Scenarios\<close>

text \<open>
  The same message handled twice, the second time \<open>gap\<close> milliseconds after the first
  call returned. The result is the final state and the two results.
\<close>

definition handle_twice ::
  "config \<Rightarrow> env \<Rightarrow> world \<Rightarrow> jsstring \<Rightarrow> jsstring \<Rightarrow> nat
     \<Rightarrow> world \<times> (jsstring + jsstring) \<times> (jsstring + jsstring)" where
  "handle_twice cfg env w message platform gap =
     (let (w1, r1) = getAIResponse cfg env w message platform;
          (w2, r2) = getAIResponse cfg env (tick gap w1) message platform
      in (w2, r1, r2))"

text \<open>
  The logger of the sample environments appends a truthy \<open>message\<close> property of the
  metadata object to the log line, which converts it to a string.
\<close>

definition meta_message_error :: "jsval \<Rightarrow> jsstring option" where
  "meta_message_error payload =
     (case payload of
        JObj kvs \<Rightarrow>
          (case map_of kvs (js ''message'') of
             None \<Rightarrow> None
           | Some m \<Rightarrow>
               if truthy m then (case js_to_string m of Inl thrown \<Rightarrow> Some thrown | Inr text \<Rightarrow> None)
               else None)
      | _ \<Rightarrow> None)"

text \<open>A completion API that answers every call, one that refuses every call, and a
  chat client whose \<^verbatim>\<open>sendMessage\<close> is rejected.\<close>

definition answering_env :: env where
  "answering_env =
     \<lparr> api = (\<lambda>n request. (1200, Replied (js ''Hello! How can I help?''))),
       reply_error = (\<lambda>n to text. None),
       send_error = (\<lambda>n to content. None),
       log_meta_error = meta_message_error \<rparr>"

definition refusing_env :: env where
  "refusing_env =
     \<lparr> api = (\<lambda>n request. (40, Failed (js ''Request failed with status code 500''))),
       reply_error = (\<lambda>n to text. None),
       send_error = (\<lambda>n to content. None),
       log_meta_error = meta_message_error \<rparr>"

definition closed_session_env :: env where
  "closed_session_env =
     \<lparr> api = (\<lambda>n request. (1200, Replied (js ''Hello! How can I help?''))),
       reply_error = (\<lambda>n to text. None),
       send_error = (\<lambda>n to content. Some (js ''Session closed. Most likely the page has been closed.'')),
       log_meta_error = meta_message_error \<rparr>"

text \<open>The webhook body \<^verbatim>\<open>{"message": {"toString": 1}}\<close>.\<close>

definition unprintable_payload :: jsval where
  "unprintable_payload = JObj [(js ''message'', JObj [(js ''toString'', JNum (js ''1''))])]"

definition ready_world :: world where
  "ready_world = on_ready (setupWhatsAppClient initial_world)"

definition sample_message :: message where
  "sample_message =
     \<lparr>msg_from = js ''15551234567@c.us'', msg_fromMe = False, msg_body = js ''hi''\<rparr>"

section \<open>Basic facts\<close>

lemma logger_fields:
  "cache (logger l a w) = cache w" "clock (logger l a w) = clock w"
  "completions (logger l a w) = completions w" "connectedUsers (logger l a w) = connectedUsers w"
  "replies (logger l a w) = replies w" "sent (logger l a w) = sent w"
  "whatsappClient (logger l a w) = whatsappClient w" "botStatus (logger l a w) = botStatus w"
  by (simp_all add: logger_def)

lemma tick_fields:
  "cache (tick d w) = cache w" "clock (tick d w) = clock w + d"
  "completions (tick d w) = completions w"
  by (simp_all add: tick_def)

subsection \<open>The four ways through getAIResponse\<close>

lemma getAIResponse_hit:
  "cached_reply cfg w (fingerprint platform message) = Some cached \<Longrightarrow>
   getAIResponse cfg env w message platform =
     (logger Info [JStr (js ''Cache hit for AI response'')] w, Inr cached)"
  by (simp add: getAIResponse_def)

lemma getAIResponse_replied:
  "cached_reply cfg w (fingerprint platform message) = None \<Longrightarrow>
   api env (length (completions w)) (make_request cfg message platform) = (took, Replied aiReply) \<Longrightarrow>
   getAIResponse cfg env w message platform =
     ((if ENABLE_CACHING cfg
       then w\<lparr>completions := completions w @ [make_request cfg message platform],
              clock := clock w + took,
              cache := cache_set (CACHE_TTL cfg) (cache w) (clock w + took)
                         (fingerprint platform message) aiReply\<rparr>
       else w\<lparr>completions := completions w @ [make_request cfg message platform],
              clock := clock w + took\<rparr>), Inr aiReply)"
  by (simp add: getAIResponse_def)

lemma getAIResponse_aborted:
  "cached_reply cfg w (fingerprint platform message) = None \<Longrightarrow>
   api env (length (completions w)) (make_request cfg message platform) = (took, Aborted detail) \<Longrightarrow>
   getAIResponse cfg env w message platform =
     (logger Error [JStr (js ''AI API Error:''), JStr detail]
        (w\<lparr>completions := completions w @ [make_request cfg message platform],
           clock := clock w + took\<rparr>), Inl (ERROR_AI_TIMEOUT cfg))"
  by (simp add: getAIResponse_def)

lemma getAIResponse_failed:
  "cached_reply cfg w (fingerprint platform message) = None \<Longrightarrow>
   api env (length (completions w)) (make_request cfg message platform) = (took, Failed detail) \<Longrightarrow>
   getAIResponse cfg env w message platform =
     (logger Error [JStr (js ''AI API Error:''), JStr detail]
        (w\<lparr>completions := completions w @ [make_request cfg message platform],
           clock := clock w + took\<rparr>), Inl (ERROR_GENERIC cfg))"
  by (simp add: getAIResponse_def)

text \<open>One call of the function posts at most one completion request.\<close>

lemma getAIResponse_completions:
  "completions (fst (getAIResponse cfg env w message platform)) = completions w \<or>
   completions (fst (getAIResponse cfg env w message platform)) =
     completions w @ [make_request cfg message platform]"
  by (simp add: getAIResponse_def Let_def logger_fields
           split: option.splits prod.splits api_result.splits)

lemma getAIResponse_connectedUsers:
  "connectedUsers (fst (getAIResponse cfg env w message platform)) = connectedUsers w"
  by (simp add: getAIResponse_def Let_def logger_fields
           split: option.splits prod.splits api_result.splits)

text \<open>Whatever the completion API fails with, the error thrown carries a configured message.\<close>

lemma getAIResponse_thrown:
  "snd (getAIResponse cfg env w message platform) = Inl thrown \<Longrightarrow>
   thrown = ERROR_AI_TIMEOUT cfg \<or> thrown = ERROR_GENERIC cfg"
  by (auto simp add: getAIResponse_def Let_def
           split: option.splits prod.splits api_result.splits)

lemma cached_reply_after_store:
  assumes "ENABLE_CACHING cfg" "aiReply \<noteq> []" "gap < CACHE_TTL cfg * 1000"
    and "cache w' = cache_set (CACHE_TTL cfg) c now k aiReply" "clock w' = now + gap"
  shows "cached_reply cfg w' k = Some aiReply"
  using assms by (simp add: cached_reply_def cache_get_def cache_set_def)

section \<open>Handling the same message twice\<close>

text \<open>
  Claim C1, as stated: handling the same message twice within the TTL window invokes the
  completion client at most once. This fails when the first completion call fails:
  nothing is stored, and the second call posts the request again. With the default
  configuration and a completion API that refuses every call, two completion requests
  are posted for the message \<open>hello\<close> of the web platform.
\<close>

theorem getAIResponse_twice_counterexample:
  "length (completions (fst (handle_twice default_config refusing_env initial_world
      (js ''hello'') (js ''web'') 0))) = 2"
  by (simp add: handle_twice_def getAIResponse_def cached_reply_def cache_get_def
        initial_world_def refusing_env_def tick_def logger_def Let_def)

text \<open>
  An empty reply is stored but never used, because the lookup tests the cached value for
  truthiness: the second call posts the request again, too.
\<close>

lemma getAIResponse_empty_reply_not_reused:
  "length (completions (fst (handle_twice default_config
      (answering_env\<lparr>api := (\<lambda>n request. (1200, Replied []))\<rparr>) initial_world
      (js ''hello'') (js ''web'') 0))) = 2"
  by (simp add: handle_twice_def getAIResponse_def cached_reply_def cache_get_def cache_set_def
        initial_world_def answering_env_def default_config_def tick_def logger_def Let_def)

text \<open>
  Claim C1, amended: with caching enabled, if the completion call of the first handling
  answers with a non-empty reply and the second handling starts less than the TTL after
  the first one returned, then at most one completion request is posted by the two
  calls together; and when the first call misses the cache, it returns the reply, the
  second call returns the same reply from the cache, and exactly one request was posted.
\<close>

theorem getAIResponse_twice_at_most_once:
  assumes caching: "ENABLE_CACHING cfg"
    and answer: "api env (length (completions w)) (make_request cfg message platform)
                   = (took, Replied aiReply)"
    and nonempty: "aiReply \<noteq> []"
    and window: "gap < CACHE_TTL cfg * 1000"
  shows "case handle_twice cfg env w message platform gap of
           (w2, r1, r2) \<Rightarrow>
             length (completions w2) \<le> length (completions w) + 1 \<and>
             (cached_reply cfg w (fingerprint platform message) = None \<longrightarrow>
                r1 = Inr aiReply \<and> r2 = Inr aiReply \<and>
                completions w2 = completions w @ [make_request cfg message platform])"
proof (cases "cached_reply cfg w (fingerprint platform message)")
  case None
  let ?k = "fingerprint platform message"
  let ?w1 = "w\<lparr>completions := completions w @ [make_request cfg message platform],
               clock := clock w + took,
               cache := cache_set (CACHE_TTL cfg) (cache w) (clock w + took) ?k aiReply\<rparr>"
  have first: "getAIResponse cfg env w message platform = (?w1, Inr aiReply)"
    using getAIResponse_replied [OF None answer] caching by simp
  have "cached_reply cfg (tick gap ?w1) ?k = Some aiReply"
    by (rule cached_reply_after_store
          [OF caching nonempty window, where c = "cache w" and now = "clock w + took"])
       (simp_all add: tick_fields)
  then have second: "getAIResponse cfg env (tick gap ?w1) message platform =
      (logger Info [JStr (js ''Cache hit for AI response'')] (tick gap ?w1), Inr aiReply)"
    by (rule getAIResponse_hit)
  show ?thesis
    by (simp add: handle_twice_def first second logger_fields tick_fields None)
next
  case (Some cached)
  let ?w1 = "logger Info [JStr (js ''Cache hit for AI response'')] w"
  have first: "getAIResponse cfg env w message platform = (?w1, Inr cached)"
    by (rule getAIResponse_hit [OF Some])
  have "completions (tick gap ?w1) = completions w"
    by (simp add: tick_fields logger_fields)
  with getAIResponse_completions [of cfg env "tick gap ?w1" message platform]
  have "length (completions (fst (getAIResponse cfg env (tick gap ?w1) message platform)))
          \<le> length (completions w) + 1"
    by auto
  then show ?thesis
    by (auto simp add: handle_twice_def first Some split: prod.splits)
qed

theorem getAIResponse_twice_at_most_once_witness:
  "ENABLE_CACHING default_config \<and>
   api answering_env (length (completions initial_world))
     (make_request default_config (js ''hello'') (js ''web''))
     = (1200, Replied (js ''Hello! How can I help?'')) \<and>
   js ''Hello! How can I help?'' \<noteq> [] \<and>
   (299999::nat) < CACHE_TTL default_config * 1000 \<and>
   cached_reply default_config initial_world (fingerprint (js ''web'') (js ''hello'')) = None \<and>
   (case handle_twice default_config answering_env initial_world (js ''hello'') (js ''web'') 299999 of
      (w2, r1, r2) \<Rightarrow>
        r1 = Inr (js ''Hello! How can I help?'') \<and> r2 = Inr (js ''Hello! How can I help?'') \<and>
        completions w2 = [make_request default_config (js ''hello'') (js ''web'')])"
proof -
  have h1: "ENABLE_CACHING default_config"
    by (simp add: default_config_def)
  have h2: "api answering_env (length (completions initial_world))
     (make_request default_config (js ''hello'') (js ''web''))
     = (1200, Replied (js ''Hello! How can I help?''))"
    by (simp add: answering_env_def)
  have h3: "js ''Hello! How can I help?'' \<noteq> []"
    by (simp add: js_def)
  have h4: "(299999::nat) < CACHE_TTL default_config * 1000"
    by (simp add: default_config_def)
  have h5: "cached_reply default_config initial_world (fingerprint (js ''web'') (js ''hello'')) = None"
    by (simp add: cached_reply_def cache_get_def initial_world_def)
  have h6: "completions initial_world = []"
    by (simp add: initial_world_def)
  show ?thesis
    using getAIResponse_twice_at_most_once [OF h1 h2 h3 h4] h1 h2 h3 h4 h5 h6
    by (simp split: prod.splits)
qed

section \<open>The cache contract\<close>

text \<open>
  Claim C2: \<open>set(k, v)\<close> followed immediately by \<open>get(k)\<close> returns \<open>v\<close>, and once the
  TTL has elapsed since the insertion \<open>get(k)\<close> returns absent. The TTL is the
  \<^verbatim>\<open>stdTTL\<close> the cache is created with, 300 seconds in the configuration.
\<close>

theorem cache_set_get_round_trip:
  assumes "0 < ttl"
  shows "cache_get (cache_set ttl c now k v) now k = Some v \<and>
         (\<forall>later. now + ttl * 1000 \<le> later \<longrightarrow>
            cache_get (cache_set ttl c now k v) later k = None)"
  using assms by (simp add: cache_get_def cache_set_def)

theorem cache_set_get_round_trip_witness:
  "0 < CACHE_TTL default_config \<and>
   cache_get (cache_set (CACHE_TTL default_config) Map.empty 5000 (js ''ai_web_aGVsbG8='') (js ''Hi!''))
     5000 (js ''ai_web_aGVsbG8='') = Some (js ''Hi!'') \<and>
   cache_get (cache_set (CACHE_TTL default_config) Map.empty 5000 (js ''ai_web_aGVsbG8='') (js ''Hi!''))
     305000 (js ''ai_web_aGVsbG8='') = None"
proof -
  have h: "0 < CACHE_TTL default_config"
    by (simp add: default_config_def)
  have "(5000::nat) + CACHE_TTL default_config * 1000 \<le> 305000"
    by (simp add: default_config_def)
  with cache_set_get_round_trip [OF h, of Map.empty 5000 "js ''ai_web_aGVsbG8=''" "js ''Hi!''"] h
  show ?thesis by blast
qed

section \<open>Validation in POST /api/chat\<close>

text \<open>
  Claim C3: a request whose message is absent, is not a string, or is longer than 2000
  code units is answered with status 400, and the state is left as it was, so no
  completion request is posted; a message of exactly 2000 code units is not answered
  with 400.
\<close>

theorem api_chat_rejects_invalid_message:
  "(\<not> is_string message \<or> 2000 < length (string_of message) \<longrightarrow>
      res_status (snd (api_chat cfg env w message sessionId)) = 400 \<and>
      fst (api_chat cfg env w message sessionId) = w \<and>
      completions (fst (api_chat cfg env w message sessionId)) = completions w) \<and>
   (is_string message \<and> length (string_of message) = 2000 \<longrightarrow>
      res_status (snd (api_chat cfg env w message sessionId)) \<noteq> 400)"
  by (cases message)
     (auto simp add: api_chat_def Let_def split: prod.splits sum.splits)

theorem api_chat_rejects_invalid_message_witness:
  "2000 < length (string_of (JStr (replicate 2001 0x61))) \<and>
   res_status (snd (api_chat default_config answering_env initial_world
                      (JStr (replicate 2001 0x61)) JUndefined)) = 400 \<and>
   completions (fst (api_chat default_config answering_env initial_world
                      (JStr (replicate 2001 0x61)) JUndefined)) = [] \<and>
   \<not> is_string JUndefined \<and>
   res_status (snd (api_chat default_config answering_env initial_world JUndefined JUndefined)) = 400 \<and>
   is_string (JStr (replicate 2000 0x61)) \<and> length (string_of (JStr (replicate 2000 0x61))) = 2000 \<and>
   res_status (snd (api_chat default_config answering_env initial_world
                      (JStr (replicate 2000 0x61)) JUndefined)) \<noteq> 400"
  using api_chat_rejects_invalid_message
          [of "JStr (replicate 2001 0x61)" default_config answering_env initial_world JUndefined]
        api_chat_rejects_invalid_message
          [of JUndefined default_config answering_env initial_world JUndefined]
        api_chat_rejects_invalid_message
          [of "JStr (replicate 2000 0x61)" default_config answering_env initial_world JUndefined]
  by (simp add: initial_world_def)

section \<open>Error bodies\<close>

lemma cached_reply_logger: "cached_reply cfg (logger l a w) k = cached_reply cfg w k"
  by (simp add: cached_reply_def logger_fields)

text \<open>Every response of POST /api/chat is a success or one of four error responses.\<close>

lemma api_chat_responses:
  "res_status (snd (api_chat cfg env w message sessionId)) = 200 \<or>
   snd (api_chat cfg env w message sessionId) =
     \<lparr>res_status = 400, res_body = ErrorBody (js ''Message is required and must be a string'')\<rparr> \<or>
   snd (api_chat cfg env w message sessionId) =
     \<lparr>res_status = 400,
      res_body = ErrorBody (js ''Message too long. Maximum 2000 characters allowed.'')\<rparr> \<or>
   snd (api_chat cfg env w message sessionId) =
     \<lparr>res_status = 500, res_body = Failure (ERROR_AI_TIMEOUT cfg)\<rparr> \<or>
   snd (api_chat cfg env w message sessionId) =
     \<lparr>res_status = 500, res_body = Failure (ERROR_GENERIC cfg)\<rparr>"
proof (cases "\<not> truthy message \<or> \<not> is_string message \<or> 2000 < length (string_of message)")
  case True
  then show ?thesis by (auto simp add: api_chat_def)
next
  case False
  let ?w1 = "logger Info
               [JStr ([0xD83C, 0xDF10] @ js '' Web chat message: ''
                      @ take 50 (string_of message) @ js ''...'')] w"
  obtain w2 result where run: "getAIResponse cfg env ?w1 (string_of message) (js ''web'') = (w2, result)"
    by (cases "getAIResponse cfg env ?w1 (string_of message) (js ''web'')")
  show ?thesis
  proof (cases result)
    case (Inl thrown)
    with run getAIResponse_thrown [of cfg env ?w1 "string_of message" "js ''web''" thrown]
    have "thrown = ERROR_AI_TIMEOUT cfg \<or> thrown = ERROR_GENERIC cfg"
      by simp
    with False run Inl show ?thesis
      by (auto simp add: api_chat_def Let_def)
  next
    case (Inr aiReply)
    with False run show ?thesis
      by (simp add: api_chat_def Let_def)
  qed
qed

text \<open>
  When the completion call fails, the message of the error it failed with goes to the
  log, and the response has status 500.
\<close>

lemma api_chat_logs_detail:
  assumes valid: "truthy message" "is_string message" "length (string_of message) \<le> 2000"
    and miss: "cached_reply cfg w (fingerprint (js ''web'') (string_of message)) = None"
    and fails: "api env (length (completions w)) (make_request cfg (string_of message) (js ''web''))
                  = (took, result)" "result = Aborted detail \<or> result = Failed detail"
  shows "res_status (snd (api_chat cfg env w message sessionId)) = 500 \<and>
         (Error, [JStr (js ''AI API Error:''), JStr detail])
           \<in> set (logs (fst (api_chat cfg env w message sessionId)))"
proof -
  let ?w1 = "logger Info
               [JStr ([0xD83C, 0xDF10] @ js '' Web chat message: ''
                      @ take 50 (string_of message) @ js ''...'')] w"
  have miss1: "cached_reply cfg ?w1 (fingerprint (js ''web'') (string_of message)) = None"
    using miss by (simp only: cached_reply_logger)
  have call: "api env (length (completions ?w1))
                (make_request cfg (string_of message) (js ''web'')) = (took, result)"
    using fails(1) by (simp add: logger_fields)
  from fails(2) show ?thesis
  proof
    assume r: "result = Aborted detail"
    show ?thesis
      using valid getAIResponse_aborted [OF miss1 call [unfolded r]]
      by (simp add: api_chat_def Let_def logger_def)
  next
    assume r: "result = Failed detail"
    show ?thesis
      using valid getAIResponse_failed [OF miss1 call [unfolded r]]
      by (simp add: api_chat_def Let_def logger_def)
  qed
qed

lemma api_send_refusals:
  "(\<not> whatsappClient w \<or> botStatus w \<noteq> Ready \<longrightarrow>
      snd (api_send cfg env w number message) =
        \<lparr>res_status = 503, res_body = ErrorBody (js ''WhatsApp bot not ready'')\<rparr>) \<and>
   (whatsappClient w \<and> botStatus w = Ready \<and> (\<not> truthy number \<or> \<not> truthy message) \<longrightarrow>
      snd (api_send cfg env w number message) =
        \<lparr>res_status = 400, res_body = ErrorBody (js ''Number and message are required'')\<rparr>)"
  by (auto simp add: api_send_def)

lemma api_send_failure:
  assumes "whatsappClient w" "botStatus w = Ready" "truthy number" "truthy message"
    and "format_number number = Inr formattedNumber"
    and "send_error env (length (sent w)) formattedNumber message = Some detail"
  shows "snd (api_send cfg env w number message) = \<lparr>res_status = 500, res_body = Failure detail\<rparr>"
  using assms by (simp add: api_send_def Let_def)

text \<open>
  Claim C4, as stated: every error body of /api/chat, /api/send and /api/webhook carries
  only the configured generic message or the configured timeout message, never the raw
  internal error. The \<^verbatim>\<open>catch\<close> block of /api/send answers with the message of the
  error it caught: when \<^verbatim>\<open>sendMessage\<close> is rejected, the body carries the chat
  client's own error message, which is neither of the two configured messages.
\<close>

theorem api_send_error_body_counterexample:
  "snd (api_send default_config closed_session_env ready_world
          (JStr (js ''15551234567'')) (JStr (js ''hi'')))
     = \<lparr>res_status = 500,
        res_body = Failure (js ''Session closed. Most likely the page has been closed.'')\<rparr> \<and>
   js ''Session closed. Most likely the page has been closed.'' \<noteq> ERROR_GENERIC default_config \<and>
   js ''Session closed. Most likely the page has been closed.'' \<noteq> ERROR_AI_TIMEOUT default_config"
  by (simp add: api_send_def ready_world_def on_ready_def setupWhatsAppClient_def logger_def
        initial_world_def closed_session_env_def default_config_def js_def Let_def)


text \<open>
  Claim C4, amended. POST /api/chat answers a failed completion call with status 500 and
  the configured timeout message or the configured generic message, and the raw error
  message is written to the log; its only other error responses are the two 400s with
  fixed texts. POST /api/send answers 503 and 400 with fixed texts, and a rejected
  dispatch with status 500 and the message of the error that was caught. POST
  /api/webhook answers with its success body when the logger accepts the request body,
  and otherwise with status 500 and the message of the error the logger threw, which
  is also written to the log.
\<close>

theorem error_bodies_by_handler:
  "(res_status (snd (api_chat cfg env w message sessionId)) = 200 \<or>
    snd (api_chat cfg env w message sessionId) =
      \<lparr>res_status = 400, res_body = ErrorBody (js ''Message is required and must be a string'')\<rparr> \<or>
    snd (api_chat cfg env w message sessionId) =
      \<lparr>res_status = 400,
       res_body = ErrorBody (js ''Message too long. Maximum 2000 characters allowed.'')\<rparr> \<or>
    snd (api_chat cfg env w message sessionId) =
      \<lparr>res_status = 500, res_body = Failure (ERROR_AI_TIMEOUT cfg)\<rparr> \<or>
    snd (api_chat cfg env w message sessionId) =
      \<lparr>res_status = 500, res_body = Failure (ERROR_GENERIC cfg)\<rparr>) \<and>
   (truthy message \<and> is_string message \<and> length (string_of message) \<le> 2000 \<and>
    cached_reply cfg w (fingerprint (js ''web'') (string_of message)) = None \<and>
    api env (length (completions w)) (make_request cfg (string_of message) (js ''web''))
      = (took, result) \<and>
    (result = Aborted detail \<or> result = Failed detail) \<longrightarrow>
      res_status (snd (api_chat cfg env w message sessionId)) = 500 \<and>
      (Error, [JStr (js ''AI API Error:''), JStr detail])
        \<in> set (logs (fst (api_chat cfg env w message sessionId)))) \<and>
   (\<not> whatsappClient w \<or> botStatus w \<noteq> Ready \<longrightarrow>
      snd (api_send cfg env w number content) =
        \<lparr>res_status = 503, res_body = ErrorBody (js ''WhatsApp bot not ready'')\<rparr>) \<and>
   (whatsappClient w \<and> botStatus w = Ready \<and> (\<not> truthy number \<or> \<not> truthy content) \<longrightarrow>
      snd (api_send cfg env w number content) =
        \<lparr>res_status = 400, res_body = ErrorBody (js ''Number and message are required'')\<rparr>) \<and>
   (whatsappClient w \<and> botStatus w = Ready \<and> truthy number \<and> truthy content \<and>
    format_number number = Inr formattedNumber \<and>
    send_error env (length (sent w)) formattedNumber content = Some thrown \<longrightarrow>
      snd (api_send cfg env w number content) =
        \<lparr>res_status = 500, res_body = Failure thrown\<rparr>) \<and>
   (log_meta_error env payload = None \<longrightarrow>
      snd (api_webhook env w payload) =
        \<lparr>res_status = 200, res_body = Success (js ''Webhook processed successfully'')\<rparr>) \<and>
   (log_meta_error env payload = Some caught \<longrightarrow>
      snd (api_webhook env w payload) = \<lparr>res_status = 500, res_body = Failure caught\<rparr> \<and>
      (Error, [JStr (js ''Webhook error:''), JStr caught])
        \<in> set (logs (fst (api_webhook env w payload))))"
proof -
  have webhook:
    "log_meta_error env payload = None \<longrightarrow>
       snd (api_webhook env w payload) =
         \<lparr>res_status = 200, res_body = Success (js ''Webhook processed successfully'')\<rparr>"
    "log_meta_error env payload = Some caught \<longrightarrow>
       snd (api_webhook env w payload) = \<lparr>res_status = 500, res_body = Failure caught\<rparr> \<and>
       (Error, [JStr (js ''Webhook error:''), JStr caught])
         \<in> set (logs (fst (api_webhook env w payload)))"
    by (simp_all add: api_webhook_def logger_def)
  show ?thesis
    using api_chat_responses [of cfg env w message sessionId]
      api_chat_logs_detail [of message cfg w env took result detail sessionId]
      api_send_refusals [of w cfg env number content]
      api_send_failure [of w number content formattedNumber env thrown cfg]
      webhook
    by blast
qed

theorem error_bodies_by_handler_witness:
  "truthy (JStr (js ''hello'')) \<and> is_string (JStr (js ''hello'')) \<and>
   length (string_of (JStr (js ''hello''))) \<le> 2000 \<and>
   cached_reply default_config initial_world (fingerprint (js ''web'') (string_of (JStr (js ''hello''))))
     = None \<and>
   api refusing_env (length (completions initial_world))
       (make_request default_config (string_of (JStr (js ''hello''))) (js ''web''))
     = (40, Failed (js ''Request failed with status code 500'')) \<and>
   snd (api_chat default_config refusing_env initial_world (JStr (js ''hello'')) JUndefined)
     = \<lparr>res_status = 500, res_body = Failure (ERROR_GENERIC default_config)\<rparr> \<and>
   (Error, [JStr (js ''AI API Error:''), JStr (js ''Request failed with status code 500'')])
     \<in> set (logs (fst (api_chat default_config refusing_env initial_world
                          (JStr (js ''hello'')) JUndefined))) \<and>
   botStatus initial_world \<noteq> Ready \<and>
   snd (api_send default_config refusing_env initial_world (JStr (js ''15551234567'')) (JStr (js ''hi'')))
     = \<lparr>res_status = 503, res_body = ErrorBody (js ''WhatsApp bot not ready'')\<rparr> \<and>
   whatsappClient ready_world \<and> botStatus ready_world = Ready \<and> \<not> truthy JUndefined \<and>
   snd (api_send default_config closed_session_env ready_world JUndefined (JStr (js ''hi'')))
     = \<lparr>res_status = 400, res_body = ErrorBody (js ''Number and message are required'')\<rparr> \<and>
   truthy (JStr (js ''15551234567'')) \<and> truthy (JStr (js ''hi'')) \<and>
   format_number (JStr (js ''15551234567'')) = Inr (JStr (js ''15551234567@c.us'')) \<and>
   send_error closed_session_env (length (sent ready_world)) (JStr (js ''15551234567@c.us''))
       (JStr (js ''hi''))
     = Some (js ''Session closed. Most likely the page has been closed.'') \<and>
   snd (api_send default_config closed_session_env ready_world
          (JStr (js ''15551234567'')) (JStr (js ''hi'')))
     = \<lparr>res_status = 500,
        res_body = Failure (js ''Session closed. Most likely the page has been closed.'')\<rparr> \<and>
   log_meta_error closed_session_env (JObj [(js ''event'', JStr (js ''ping''))]) = None \<and>
   snd (api_webhook closed_session_env ready_world (JObj [(js ''event'', JStr (js ''ping''))]))
     = \<lparr>res_status = 200, res_body = Success (js ''Webhook processed successfully'')\<rparr> \<and>
   log_meta_error closed_session_env unprintable_payload
     = Some (js ''Cannot convert object to primitive value'') \<and>
   snd (api_webhook closed_session_env ready_world unprintable_payload)
     = \<lparr>res_status = 500,
        res_body = Failure (js ''Cannot convert object to primitive value'')\<rparr>"
proof -
  have chat: "truthy (JStr (js ''hello''))" "is_string (JStr (js ''hello''))"
    "length (string_of (JStr (js ''hello''))) \<le> 2000"
    "cached_reply default_config initial_world
       (fingerprint (js ''web'') (string_of (JStr (js ''hello'')))) = None"
    "api refusing_env (length (completions initial_world))
       (make_request default_config (string_of (JStr (js ''hello''))) (js ''web''))
     = (40, Failed (js ''Request failed with status code 500''))"
    by (simp_all add: js_def cached_reply_def cache_get_def initial_world_def refusing_env_def)
  have generic: "ERROR_GENERIC default_config \<noteq> []"
    by (simp add: default_config_def)
  have cold: "botStatus initial_world \<noteq> Ready"
    by (simp add: initial_world_def)
  have ready: "whatsappClient ready_world" "botStatus ready_world = Ready" "sent ready_world = []"
    by (simp_all add: ready_world_def on_ready_def setupWhatsAppClient_def logger_def
          initial_world_def)
  have send: "truthy (JStr (js ''15551234567''))" "truthy (JStr (js ''hi''))"
    "format_number (JStr (js ''15551234567'')) = Inr (JStr (js ''15551234567@c.us''))"
    "send_error closed_session_env (length (sent ready_world)) (JStr (js ''15551234567@c.us''))
       (JStr (js ''hi'')) = Some (js ''Session closed. Most likely the page has been closed.'')"
    by (simp_all add: js_def closed_session_env_def)
  have failed: "snd (api_chat default_config refusing_env initial_world (JStr (js ''hello'')) JUndefined)
     = \<lparr>res_status = 500, res_body = Failure (ERROR_GENERIC default_config)\<rparr>"
    using chat getAIResponse_failed [of default_config
        "logger Info [JStr ([0xD83C, 0xDF10] @ js '' Web chat message: ''
            @ take 50 (string_of (JStr (js ''hello''))) @ js ''...'')] initial_world"
        "js ''web''" "string_of (JStr (js ''hello''))" refusing_env 40
        "js ''Request failed with status code 500''"] generic
    by (simp add: api_chat_def Let_def cached_reply_logger logger_fields)
  note refused = error_bodies_by_handler
      [where cfg = default_config and env = refusing_env and w = initial_world
         and message = "JStr (js ''hello'')" and sessionId = JUndefined and took = 40
         and result = "Failed (js ''Request failed with status code 500'')"
         and detail = "js ''Request failed with status code 500''"
         and number = "JStr (js ''15551234567'')" and content = "JStr (js ''hi'')"
         and formattedNumber = JNull and thrown = "[]"
         and payload = "JObj [(js ''event'', JStr (js ''ping''))]" and caught = "[]"]
  note missing = error_bodies_by_handler
      [where cfg = default_config and env = closed_session_env and w = ready_world
         and message = JNull and sessionId = JUndefined and took = 0
         and result = "Failed []" and detail = "[]"
         and number = JUndefined and content = "JStr (js ''hi'')"
         and formattedNumber = JNull and thrown = "[]"
         and payload = "JObj [(js ''event'', JStr (js ''ping''))]" and caught = "[]"]
  note closed = error_bodies_by_handler
      [where cfg = default_config and env = closed_session_env and w = ready_world
         and message = JNull and sessionId = JUndefined and took = 0
         and result = "Failed []" and detail = "[]"
         and number = "JStr (js ''15551234567'')" and content = "JStr (js ''hi'')"
         and formattedNumber = "JStr (js ''15551234567@c.us'')"
         and thrown = "js ''Session closed. Most likely the page has been closed.''"
         and payload = unprintable_payload
         and caught = "js ''Cannot convert object to primitive value''"]
  have logged: "(Error, [JStr (js ''AI API Error:''), JStr (js ''Request failed with status code 500'')])
     \<in> set (logs (fst (api_chat default_config refusing_env initial_world
                          (JStr (js ''hello'')) JUndefined)))"
    using refused chat by blast
  have not_ready: "snd (api_send default_config refusing_env initial_world
                          (JStr (js ''15551234567'')) (JStr (js ''hi'')))
     = \<lparr>res_status = 503, res_body = ErrorBody (js ''WhatsApp bot not ready'')\<rparr>"
    using refused cold by blast
  have absent: "\<not> truthy JUndefined"
    by simp
  have required: "snd (api_send default_config closed_session_env ready_world JUndefined
                         (JStr (js ''hi'')))
     = \<lparr>res_status = 400, res_body = ErrorBody (js ''Number and message are required'')\<rparr>"
    using missing ready absent by blast
  have leaked: "snd (api_send default_config closed_session_env ready_world
          (JStr (js ''15551234567'')) (JStr (js ''hi'')))
     = \<lparr>res_status = 500,
        res_body = Failure (js ''Session closed. Most likely the page has been closed.'')\<rparr>"
    using closed ready send by blast
  have hook: "log_meta_error closed_session_env (JObj [(js ''event'', JStr (js ''ping''))]) = None"
    "log_meta_error closed_session_env unprintable_payload
       = Some (js ''Cannot convert object to primitive value'')"
    by (simp_all add: closed_session_env_def meta_message_error_def unprintable_payload_def js_def)
  have accepted: "snd (api_webhook closed_session_env ready_world
                         (JObj [(js ''event'', JStr (js ''ping''))]))
     = \<lparr>res_status = 200, res_body = Success (js ''Webhook processed successfully'')\<rparr>"
    using missing hook(1) by blast
  have thrown: "snd (api_webhook closed_session_env ready_world unprintable_payload)
     = \<lparr>res_status = 500,
        res_body = Failure (js ''Cannot convert object to primitive value'')\<rparr>"
    using closed hook(2) by blast
  from chat failed logged cold not_ready ready absent required send leaked hook accepted thrown
  show ?thesis by blast
qed


section \<open>Readiness in POST /api/send\<close>

text \<open>
  Claim C5: while the chat client is not initialised or its status is not \<open>Ready\<close>,
  POST /api/send answers 503 and leaves the state as it was, so nothing is handed to
  \<^verbatim>\<open>sendMessage\<close>.
\<close>

theorem api_send_not_ready:
  assumes "\<not> whatsappClient w \<or> botStatus w \<noteq> Ready"
  shows "res_status (snd (api_send cfg env w number message)) = 503 \<and>
         sent (fst (api_send cfg env w number message)) = sent w \<and>
         fst (api_send cfg env w number message) = w"
  using assms by (auto simp add: api_send_def)

theorem api_send_not_ready_witness:
  "botStatus (on_authenticated (setupWhatsAppClient initial_world)) \<noteq> Ready \<and>
   res_status (snd (api_send default_config answering_env
       (on_authenticated (setupWhatsAppClient initial_world))
       (JStr (js ''15551234567'')) (JStr (js ''hi'')))) = 503 \<and>
   sent (fst (api_send default_config answering_env
       (on_authenticated (setupWhatsAppClient initial_world))
       (JStr (js ''15551234567'')) (JStr (js ''hi'')))) = []"
proof -
  have h: "botStatus (on_authenticated (setupWhatsAppClient initial_world)) \<noteq> Ready"
    by (simp add: on_authenticated_def logger_def)
  have s: "sent (on_authenticated (setupWhatsAppClient initial_world)) = []"
    by (simp add: on_authenticated_def setupWhatsAppClient_def logger_def initial_world_def)
  from h have "\<not> whatsappClient (on_authenticated (setupWhatsAppClient initial_world)) \<or>
     botStatus (on_authenticated (setupWhatsAppClient initial_world)) \<noteq> Ready" ..
  from api_send_not_ready [OF this] h s show ?thesis by simp
qed

section \<open>The active-user set\<close>

lemma on_message_failed_connectedUsers:
  "connectedUsers (on_message_failed cfg env w msg detail) = connectedUsers w"
  by (simp add: on_message_failed_def msg_reply_def Let_def logger_fields split: option.splits)

lemma api_chat_connectedUsers:
  "connectedUsers (fst (api_chat cfg env w message sessionId)) = connectedUsers w"
proof (cases "\<not> truthy message \<or> \<not> is_string message \<or> 2000 < length (string_of message)")
  case True
  then show ?thesis by (auto simp add: api_chat_def)
next
  case False
  let ?w1 = "logger Info
               [JStr ([0xD83C, 0xDF10] @ js '' Web chat message: ''
                      @ take 50 (string_of message) @ js ''...'')] w"
  obtain w2 result where run: "getAIResponse cfg env ?w1 (string_of message) (js ''web'') = (w2, result)"
    by (cases "getAIResponse cfg env ?w1 (string_of message) (js ''web'')")
  from getAIResponse_connectedUsers [of cfg env ?w1 "string_of message" "js ''web''"] run
  have "connectedUsers w2 = connectedUsers w"
    by (simp add: logger_fields)
  with False run show ?thesis
    by (cases result) (simp_all add: api_chat_def Let_def logger_fields)
qed


lemma on_message_connectedUsers:
  assumes "msg_from msg \<noteq> js ''status@broadcast''" "\<not> msg_fromMe msg"
  shows "connectedUsers (on_message cfg env w msg) = insert (msg_from msg) (connectedUsers w)"
proof -
  let ?w2 = "logger Info
               [JStr ([0xD83D, 0xDCE9] @ js '' Message from '' @ msg_from msg @ js '': ''
                      @ take 50 (msg_body msg) @ js ''...'')]
               (w\<lparr>connectedUsers := insert (msg_from msg) (connectedUsers w)\<rparr>)"
  obtain w3 result where run:
    "getAIResponse cfg env ?w2 (msg_body msg) (js ''whatsapp'') = (w3, result)"
    by (cases "getAIResponse cfg env ?w2 (msg_body msg) (js ''whatsapp'')")
  from getAIResponse_connectedUsers [of cfg env ?w2 "msg_body msg" "js ''whatsapp''"] run
  have users: "connectedUsers w3 = insert (msg_from msg) (connectedUsers w)"
    by (simp add: logger_fields)
  show ?thesis
  proof (cases result)
    case (Inl thrown)
    with assms run users show ?thesis
      by (simp add: on_message_def Let_def on_message_failed_connectedUsers)
  next
    case (Inr aiReply)
    with assms run users show ?thesis
      by (cases "reply_error env (length (replies w3)) (msg_from msg) aiReply")
         (simp_all add: on_message_def Let_def msg_reply_def on_message_failed_connectedUsers
            logger_fields)
  qed
qed

text \<open>
  Claim C6, as stated: every inbound message carrying a user identifier, from the chat
  client or from /api/chat with a sessionId, records the identifier in the active-user
  set. The /api/chat handler only echoes the sessionId: a request with sessionId
  \<open>session-1\<close> is answered with status 200 and leaves the set empty.
\<close>

theorem api_chat_session_not_recorded_counterexample:
  "snd (api_chat default_config answering_env initial_world
      (JStr (js ''hello'')) (JStr (js ''session-1'')))
     = \<lparr>res_status = 200,
        res_body = ChatReply (js ''Hello! How can I help?'') (JStr (js ''session-1''))\<rparr> \<and>
   connectedUsers (fst (api_chat default_config answering_env initial_world
      (JStr (js ''hello'')) (JStr (js ''session-1'')))) = {}"
  by (simp add: api_chat_connectedUsers api_chat_def getAIResponse_def cached_reply_def
        cache_get_def initial_world_def answering_env_def logger_def Let_def js_def)

text \<open>
  Claim C6, amended: the handler of chat-client messages adds the sender to the
  active-user set for every message that is neither from \<open>status@broadcast\<close> nor sent by
  the bot itself, whatever happens to the completion call and the reply; the /api/chat
  handler never changes the set.
\<close>

theorem active_users_recorded_by_origin:
  "(msg_from msg \<noteq> js ''status@broadcast'' \<and> \<not> msg_fromMe msg \<longrightarrow>
      connectedUsers (on_message cfg env w msg) = insert (msg_from msg) (connectedUsers w)) \<and>
   connectedUsers (fst (api_chat cfg env w message sessionId)) = connectedUsers w"
  by (simp add: on_message_connectedUsers api_chat_connectedUsers)

theorem active_users_recorded_by_origin_witness:
  "msg_from sample_message \<noteq> js ''status@broadcast'' \<and> \<not> msg_fromMe sample_message \<and>
   connectedUsers (on_message default_config answering_env ready_world sample_message)
     = {js ''15551234567@c.us''} \<and>
   connectedUsers (fst (api_chat default_config answering_env ready_world
      (JStr (js ''hello'')) (JStr (js ''session-1'')))) = {}"
proof -
  have h: "msg_from sample_message \<noteq> js ''status@broadcast'' \<and> \<not> msg_fromMe sample_message"
    by (simp add: sample_message_def js_def)
  have e: "connectedUsers ready_world = {}" "msg_from sample_message = js ''15551234567@c.us''"
    by (simp_all add: ready_world_def on_ready_def setupWhatsAppClient_def initial_world_def
          logger_def sample_message_def)
  from active_users_recorded_by_origin
         [of sample_message default_config answering_env ready_world
             "JStr (js ''hello'')" "JStr (js ''session-1'')"] h e
  show ?thesis by simp
qed

section \<open>The fingerprint\<close>

text \<open>
  Claim C7: the cache key is a function of the platform and the message alone: two
  computations with identical platform and message give identical keys.
\<close>

theorem fingerprint_deterministic:
  "platform1 = platform2 \<Longrightarrow> message1 = message2 \<Longrightarrow>
   fingerprint platform1 message1 = fingerprint platform2 message2"
  by simp

theorem fingerprint_deterministic_witness:
  "fingerprint (js ''web'') (js ''hello'') = fingerprint (js ''web'') (js ''hello'') \<and>
   fingerprint (js ''web'') (js ''hello'') = js ''ai_web_aGVsbG8=''"
  using fingerprint_deterministic [of "js ''web''" "js ''web''" "js ''hello''" "js ''hello''"]
  by (simp add: fingerprint_def js_def utf8_cp_def bmp_cp_def is_high_surrogate_def
        is_low_surrogate_def b64_digit_def b64_alphabet_def)

section \<open>Messages the chat handler skips\<close>

text \<open>
  Claim C9: for a message from \<open>status@broadcast\<close> or one sent by the bot itself, the
  handler returns at once: the state is the one it started from, so no completion
  request is posted, no reply is attempted and the sender is not added to the
  active-user set.
\<close>

theorem on_message_skips_status_and_own:
  assumes "msg_from msg = js ''status@broadcast'' \<or> msg_fromMe msg"
  shows "on_message cfg env w msg = w"
  using assms by (auto simp add: on_message_def)

theorem on_message_skips_status_and_own_witness:
  "msg_from (sample_message\<lparr>msg_from := js ''status@broadcast''\<rparr>) = js ''status@broadcast'' \<and>
   on_message default_config answering_env ready_world
     (sample_message\<lparr>msg_from := js ''status@broadcast''\<rparr>) = ready_world \<and>
   msg_fromMe (sample_message\<lparr>msg_fromMe := True\<rparr>) \<and>
   on_message default_config answering_env ready_world
     (sample_message\<lparr>msg_fromMe := True\<rparr>) = ready_world"
  using on_message_skips_status_and_own
          [of "sample_message\<lparr>msg_from := js ''status@broadcast''\<rparr>"
              default_config answering_env ready_world]
        on_message_skips_status_and_own
          [of "sample_message\<lparr>msg_fromMe := True\<rparr>"
              default_config answering_env ready_world]
  by simp

section \<open>The destination of POST /api/send\<close>

text \<open>
  Whatever the request holds, the handler hands at most one message to the chat client,
  with the content as it was given and the destination computed by \<open>format_number\<close>.
\<close>

lemma api_send_dispatch:
  "sent (fst (api_send cfg env w number message)) = sent w \<or>
   (\<exists>formattedNumber. format_number number = Inr formattedNumber \<and>
      sent (fst (api_send cfg env w number message)) = sent w @ [(formattedNumber, message)])"
  by (cases "format_number number";
      cases "send_error env (length (sent w)) (projr (format_number number)) message")
     (simp_all add: api_send_def Let_def logger_fields split: jsval.splits sum.splits)

text \<open>
  Claim C10, as stated: for every request accepted for dispatch (the bot ready, number and
  message present), the destination is the given number, with \<open>@c.us\<close> appended when it
  contains no \<open>@\<close>. A number that arrives as a JSON number is present, but has no
  \<^verbatim>\<open>includes\<close> method: the request ends in the \<^verbatim>\<open>catch\<close> block with status
  500, and nothing is dispatched.
\<close>

theorem api_send_numeric_number_counterexample:
  "whatsappClient ready_world \<and> botStatus ready_world = Ready \<and>
   truthy (JNum (js ''15551234567'')) \<and> truthy (JStr (js ''hi'')) \<and>
   sent (fst (api_send default_config answering_env ready_world
                (JNum (js ''15551234567'')) (JStr (js ''hi'')))) = [] \<and>
   snd (api_send default_config answering_env ready_world
          (JNum (js ''15551234567'')) (JStr (js ''hi'')))
     = \<lparr>res_status = 500, res_body = Failure (js ''number.includes is not a function'')\<rparr>"
  by (simp add: api_send_def ready_world_def on_ready_def setupWhatsAppClient_def logger_def
        initial_world_def js_def)

text \<open>
  Claim C10, amended: for a request accepted for dispatch whose number is a string (the
  bot ready, the number a non-empty string and the message present), one message is
  handed to the chat client; the destination is the number unchanged when it contains
  \<open>@\<close> (code unit 0x40) and the number followed by \<open>@c.us\<close> otherwise, and the content is
  the message as given.
\<close>

theorem api_send_destination:
  assumes "whatsappClient w" "botStatus w = Ready" "number \<noteq> []" "truthy message"
  shows "sent (fst (api_send cfg env w (JStr number) message)) =
           sent w @ [(JStr (if 0x40 \<in> set number then number else number @ js ''@c.us''), message)]"
  using assms
  by (simp add: api_send_def Let_def logger_fields split: option.splits jsval.splits)

theorem api_send_destination_witness:
  "whatsappClient ready_world \<and> botStatus ready_world = Ready \<and>
   js ''15551234567'' \<noteq> [] \<and> truthy (JStr (js ''hi'')) \<and>
   sent (fst (api_send default_config answering_env ready_world
               (JStr (js ''15551234567'')) (JStr (js ''hi''))))
     = [(JStr (js ''15551234567@c.us''), JStr (js ''hi''))] \<and>
   sent (fst (api_send default_config answering_env ready_world
               (JStr (js ''1555-group@g.us'')) (JStr (js ''hi''))))
     = [(JStr (js ''1555-group@g.us''), JStr (js ''hi''))]"
proof -
  have h: "whatsappClient ready_world" "botStatus ready_world = Ready"
    by (simp_all add: ready_world_def on_ready_def setupWhatsAppClient_def logger_def)
  have n: "js ''15551234567'' \<noteq> []" "js ''1555-group@g.us'' \<noteq> []" "truthy (JStr (js ''hi''))"
    by (simp_all add: js_def)
  have s: "sent ready_world = []"
    by (simp add: ready_world_def on_ready_def setupWhatsAppClient_def logger_def initial_world_def)
  from api_send_destination [OF h n(1) n(3), of default_config answering_env]
       api_send_destination [OF h n(2) n(3), of default_config answering_env] h n s
  show ?thesis by (simp add: js_def)
qed

end
